theory Spec2Isabelle
  imports Complex_Main "HOL-Library.Sublist" "HOL-Library.Log_Nat"
begin

section \<open>The delivery table\<close>

text \<open>
  \<^verbatim>\<open>batter_dashboard.py\<close> is a script over one pandas table. A table is modelled as
  the list of its rows in index order, a row as a record of the columns the script
  reads. A cell that pandas holds as NaN (a missing value) is \<open>None\<close>. The columns
  \<^verbatim>\<open>FieldX\<close>, \<^verbatim>\<open>FieldY\<close>, \<^verbatim>\<open>Analyst Arrival Line\<close> and \<^verbatim>\<open>Analyst Arrival Height\<close> are
  floating point in the program; here they are exact rationals, as are the quotients
  of the metrics. \<^verbatim>\<open>Runs\<close> is an integer column without missing values. The sums
  and quotients of the metrics are first written over the integers and the rationals;
  the machine arithmetic of the boundary percentage (64-bit sums, double precision
  quotient and rounding) is written out in a section of its own.
\<close>

record csv_row =
  Batting_Team :: "string option"
  Batter :: "string option"
  Bowler_Type :: "string option"
  Runs :: int
  Extra :: "string option"
  Wicket :: "string option"
  FieldX :: "rat option"
  FieldY :: "rat option"
  Analyst_Arrival_Line :: "rat option"
  Analyst_Arrival_Height :: "rat option"

text \<open>The table after \<^verbatim>\<open>load_data\<close>: the columns read plus the derived \<^verbatim>\<open>Bowling Type\<close>.\<close>

record delivery = csv_row +
  Bowling_Type :: "string option"

subsection \<open>pandas primitives\<close>

definition notna :: "'a option \<Rightarrow> bool" where
  "notna v = (case v of None \<Rightarrow> False | Some _ \<Rightarrow> True)"

text \<open>
  \<^verbatim>\<open>Series.isin(values)\<close> on one cell, for a list of values that holds no NaN (the
  selections are made of widget options, which are strings or integers): a missing
  cell is in no such list.
\<close>

definition isin :: "'a option \<Rightarrow> 'a list \<Rightarrow> bool" where
  "isin v vals = (case v of None \<Rightarrow> False | Some a \<Rightarrow> a \<in> set vals)"

text \<open>
  \<^verbatim>\<open>Series.map(dict)\<close> on one cell: a missing cell stays missing, a key the dict does
  not hold becomes missing.
\<close>

definition series_map :: "('a \<rightharpoonup> 'b) \<Rightarrow> 'a option \<Rightarrow> 'b option" where
  "series_map m v = (case v of None \<Rightarrow> None | Some k \<Rightarrow> m k)"

subsection \<open>Loading\<close>

definition bowling_type_mapping :: "string \<rightharpoonup> string" where
  "bowling_type_mapping = map_of
     [(''LLB'', ''Spin''), (''LOB'', ''Spin''), (''RLB'', ''Spin''), (''ROB'', ''Spin''),
      (''LF'', ''Pace''), (''LFM'', ''Pace''), (''LM'', ''Pace''),
      (''RF'', ''Pace''), (''RFM'', ''Pace''), (''RM'', ''Pace'')]"

definition add_bowling_type :: "csv_row \<Rightarrow> delivery" where
  "add_bowling_type r =
     \<lparr>Batting_Team = Batting_Team r, Batter = Batter r, Bowler_Type = Bowler_Type r,
      Runs = Runs r, Extra = Extra r, Wicket = Wicket r,
      FieldX = FieldX r, FieldY = FieldY r,
      Analyst_Arrival_Line = Analyst_Arrival_Line r,
      Analyst_Arrival_Height = Analyst_Arrival_Height r,
      Bowling_Type = series_map bowling_type_mapping (Bowler_Type r)\<rparr>"

text \<open>\<^verbatim>\<open>load_data\<close>, given the rows that \<^verbatim>\<open>pd.read_csv\<close> returned.\<close>

definition load_data :: "csv_row list \<Rightarrow> delivery list" where
  "load_data df = map add_bowling_type df"

section \<open>Sidebar filters\<close>

text \<open>The four multiselect widgets: what the user has selected in each.\<close>

record selection =
  selected_teams :: "string list"
  selected_batters :: "string list"
  selected_bowling :: "string list"
  selected_runs :: "int list"

text \<open>
  Lines 59 to 68. A Python list is truthy when it is not empty; each \<^verbatim>\<open>if\<close> rebinds
  \<^verbatim>\<open>filtered\<close> to the rows its mask keeps.
\<close>

definition filtered :: "delivery list \<Rightarrow> selection \<Rightarrow> delivery list" where
  "filtered data sel =
     (let f0 = data;
          f1 = (if selected_teams sel \<noteq> []
                then filter (\<lambda>r. isin (Batting_Team r) (selected_teams sel)) f0 else f0);
          f2 = (if selected_batters sel \<noteq> []
                then filter (\<lambda>r. isin (Batter r) (selected_batters sel)) f1 else f1);
          f3 = (if selected_bowling sel \<noteq> []
                then filter (\<lambda>r. isin (Bowling_Type r) (selected_bowling sel)) f2 else f2)
      in f3)"

text \<open>
  The filter contract in the words of the specification: a facet with a non-empty
  selection keeps the rows whose value is a member of it, a facet with an empty
  selection constrains nothing, and the facets are joined by conjunction.
\<close>

definition facet_ok :: "string list \<Rightarrow> string option \<Rightarrow> bool" where
  "facet_ok chosen v = (chosen \<noteq> [] \<longrightarrow> (\<exists>a \<in> set chosen. v = Some a))"

definition spec_retained :: "selection \<Rightarrow> delivery \<Rightarrow> bool" where
  "spec_retained sel r =
     (facet_ok (selected_teams sel) (Batting_Team r) \<and>
      facet_ok (selected_batters sel) (Batter r) \<and>
      facet_ok (selected_bowling sel) (Bowling_Type r))"

section \<open>Performance metrics\<close>

subsection \<open>Strings\<close>

text \<open>
  Strings are byte strings. Case is folded on the ASCII letters, which is what
  \<^verbatim>\<open>re.IGNORECASE\<close> does on ASCII text.
\<close>

definition ascii_lower :: "char \<Rightarrow> char" where
  "ascii_lower c =
     (let n = (of_char c :: nat) in if 65 \<le> n \<and> n \<le> 90 then char_of (n + 32) else c)"

text \<open>\<^verbatim>\<open>Series.astype(str)\<close> on one cell: a missing cell becomes the text \<^verbatim>\<open>nan\<close>.\<close>

definition astype_str :: "string option \<Rightarrow> string" where
  "astype_str v = (case v of None \<Rightarrow> ''nan'' | Some s \<Rightarrow> s)"

text \<open>
  \<^verbatim>\<open>Series.str.contains(pat, case=...)\<close> on one cell for a pattern without regular
  expression operators, as \<^verbatim>\<open>"Wide"\<close> is: \<^verbatim>\<open>re.search\<close> tries the pattern at every
  position of the text, from the left.
\<close>

fun match_here :: "(char \<Rightarrow> char \<Rightarrow> bool) \<Rightarrow> string \<Rightarrow> string \<Rightarrow> bool" where
  "match_here eq [] s = True"
| "match_here eq (p # ps) [] = False"
| "match_here eq (p # ps) (c # cs) = (eq p c \<and> match_here eq ps cs)"

fun re_search :: "(char \<Rightarrow> char \<Rightarrow> bool) \<Rightarrow> string \<Rightarrow> string \<Rightarrow> bool" where
  "re_search eq pat [] = match_here eq pat []"
| "re_search eq pat (c # cs) = (match_here eq pat (c # cs) \<or> re_search eq pat cs)"

definition str_contains :: "string \<Rightarrow> bool \<Rightarrow> string \<Rightarrow> bool" where
  "str_contains pat case_sensitive s =
     re_search (if case_sensitive then (=) else (\<lambda>a b. ascii_lower a = ascii_lower b)) pat s"

subsection \<open>Numbers\<close>

datatype error = ZeroDivisionError | FileNotFoundError

text \<open>
  True division. The quotient is exact here; a zero divisor is an error, so that a
  division the script did not guard would show in the result.
\<close>

definition truediv :: "rat \<Rightarrow> rat \<Rightarrow> error + rat" where
  "truediv a b = (if b = 0 then Inl ZeroDivisionError else Inr (a / b))"

text \<open>\<^verbatim>\<open>round(v, ndigits)\<close>: to the nearest multiple of \<open>10 ^ - ndigits\<close>, a tie to the even one.\<close>

definition round_half_even :: "rat \<Rightarrow> int" where
  "round_half_even q =
     (let f = \<lfloor>q\<rfloor>; d = q - of_int f
      in if d < 1 / 2 then f else if 1 / 2 < d then f + 1 else if even f then f else f + 1)"

definition round_py :: "rat \<Rightarrow> nat \<Rightarrow> rat" where
  "round_py v ndigits = of_int (round_half_even (v * 10 ^ ndigits)) / 10 ^ ndigits"

subsection \<open>The six metrics\<close>

definition total_runs :: "delivery list \<Rightarrow> int" where
  "total_runs f = sum_list (map Runs f)"

definition balls_faced :: "delivery list \<Rightarrow> nat" where
  "balls_faced f =
     length (filter (\<lambda>r. \<not> str_contains ''Wide'' False (astype_str (Extra r))) f)"

definition dismissals_count :: "delivery list \<Rightarrow> nat" where
  "dismissals_count f =
     length (filter (\<lambda>r. notna (Wicket r) \<and>
                          \<not> isin (Wicket r) [''Retired Hurt'', ''Retired - Not Out'', ''Absent'']) f)"

text \<open>
  The average is a number or the text the script shows in its place (the infinity
  sign), which is the constructor \<open>Infinite\<close>.
\<close>

datatype average = Average rat | Infinite

definition batting_average :: "delivery list \<Rightarrow> error + average" where
  "batting_average f =
     (if dismissals_count f > 0
      then (case truediv (of_int (total_runs f)) (of_nat (dismissals_count f)) of
              Inl e \<Rightarrow> Inl e
            | Inr q \<Rightarrow> Inr (Average (round_py q 2)))
      else Inr Infinite)"

definition strike_rate :: "delivery list \<Rightarrow> error + rat" where
  "strike_rate f =
     (if balls_faced f > 0
      then (case truediv (of_int (total_runs f)) (of_nat (balls_faced f)) of
              Inl e \<Rightarrow> Inl e
            | Inr q \<Rightarrow> Inr (round_py (q * 100) 2))
      else Inr 0)"

definition boundary_runs :: "delivery list \<Rightarrow> int" where
  "boundary_runs f = sum_list (map Runs (filter (\<lambda>r. Runs r \<in> set [4, 6]) f))"

definition boundary_percentage :: "delivery list \<Rightarrow> error + rat" where
  "boundary_percentage f =
     (if total_runs f > 0
      then (case truediv (of_int (boundary_runs f)) (of_int (total_runs f)) of
              Inl e \<Rightarrow> Inl e
            | Inr q \<Rightarrow> Inr (round_py (q * 100) 2))
      else Inr 0)"

text \<open>The metric row: the six values in the order of the six columns.\<close>

record metrics =
  m_runs :: int
  m_balls_faced :: nat
  m_dismissals :: nat
  m_average :: average
  m_strike_rate :: rat
  m_boundary :: rat

definition performance_metrics :: "delivery list \<Rightarrow> error + metrics" where
  "performance_metrics f =
     (case batting_average f of
        Inl e \<Rightarrow> Inl e
      | Inr a \<Rightarrow>
          (case strike_rate f of
             Inl e \<Rightarrow> Inl e
           | Inr s \<Rightarrow>
               (case boundary_percentage f of
                  Inl e \<Rightarrow> Inl e
                | Inr b \<Rightarrow>
                    Inr \<lparr>m_runs = total_runs f, m_balls_faced = balls_faced f,
                         m_dismissals = dismissals_count f, m_average = a,
                         m_strike_rate = s, m_boundary = b\<rparr>)))"

text \<open>
  The metric definitions in the words of the specification: an extra denotes a wide
  when its text holds \<^verbatim>\<open>wide\<close> in any case, and a missing extra does not; a
  dismissal is a wicket that is present and is none of the three excluded kinds.
\<close>

definition denotes_wide :: "string option \<Rightarrow> bool" where
  "denotes_wide e =
     (case e of None \<Rightarrow> False | Some s \<Rightarrow> sublist ''wide'' (map ascii_lower s))"

definition counts_as_dismissal :: "string option \<Rightarrow> bool" where
  "counts_as_dismissal w =
     (case w of
        None \<Rightarrow> False
      | Some k \<Rightarrow> k \<noteq> ''Retired Hurt'' \<and> k \<noteq> ''Retired - Not Out'' \<and> k \<noteq> ''Absent'')"

section \<open>Machine arithmetic of the boundary percentage\<close>

text \<open>
  \<^verbatim>\<open>Runs\<close> is an int64 column, and \<^verbatim>\<open>Series.sum()\<close> adds it in int64: every addition
  wraps around silently. \<open>int64\<close> is the signed 64-bit value of an integer.
\<close>

definition int64 :: "int \<Rightarrow> int" where
  "int64 n = (n + 2 ^ 63) mod 2 ^ 64 - 2 ^ 63"

definition sum_int64 :: "int list \<Rightarrow> int" where
  "sum_int64 xs = foldl (\<lambda>acc x. int64 (acc + x)) 0 xs"

text \<open>
  Double precision. A double has 53 significant bits; an operation returns the
  double nearest to its exact result, a tie going to the even significand.
  \<open>exponent q\<close> is the \<open>e\<close> with \<open>2 ^ e \<le> q < 2 ^ (e + 1)\<close>, for a positive \<open>q\<close>. The
  range of the exponent is not modelled: between an int64 and the quotient of two
  of them no result overflows or is subnormal.
\<close>

definition exponent :: "rat \<Rightarrow> int" where
  "exponent q = (if 1 \<le> q then bitlen \<lfloor>q\<rfloor> - 1 else - bitlen (\<lceil>1 / q\<rceil> - 1))"

definition to_double :: "rat \<Rightarrow> rat" where
  "to_double q =
     (if q = 0 then 0
      else let ulp = 2 powi (exponent \<bar>q\<bar> - 52)
           in sgn q * of_int (round_half_even (\<bar>q\<bar> / ulp)) * ulp)"

text \<open>
  True division of two int64 scalars: both become doubles, and the quotient is a
  double. A zero divisor is an error here as in \<open>truediv\<close>.
\<close>

definition truediv_float64 :: "int \<Rightarrow> int \<Rightarrow> error + rat" where
  "truediv_float64 a b =
     (if b = 0 then Inl ZeroDivisionError
      else Inr (to_double (to_double (of_int a) / to_double (of_int b))))"

text \<open>
  \<^verbatim>\<open>round(x, decimals)\<close> of a double scalar: it is scaled by \<open>10 ^ decimals\<close>, rounded to
  an integer (a tie to the even one) and scaled back, each step in double precision.
\<close>

definition np_round :: "rat \<Rightarrow> nat \<Rightarrow> rat" where
  "np_round x decimals =
     to_double (of_int (round_half_even (to_double (x * 10 ^ decimals))) / 10 ^ decimals)"

text \<open>Lines 74 and 100 to 105 in this arithmetic.\<close>

definition total_runs_int64 :: "delivery list \<Rightarrow> int" where
  "total_runs_int64 f = sum_int64 (map Runs f)"

definition boundary_runs_int64 :: "delivery list \<Rightarrow> int" where
  "boundary_runs_int64 f = sum_int64 (map Runs (filter (\<lambda>r. Runs r \<in> set [4, 6]) f))"

definition boundary_percentage_float64 :: "delivery list \<Rightarrow> error + rat" where
  "boundary_percentage_float64 f =
     (if total_runs_int64 f > 0
      then (case truediv_float64 (boundary_runs_int64 f) (total_runs_int64 f) of
              Inl e \<Rightarrow> Inl e
            | Inr q \<Rightarrow> Inr (np_round (to_double (q * 100)) 2))
      else Inr 0)"

section \<open>Charts\<close>

text \<open>
  What the script hands to the page: a figure (\<^verbatim>\<open>st.plotly_chart\<close>) or a line of
  text (\<^verbatim>\<open>st.write\<close>). A trace keeps its coordinates, its mode, its colour and its
  legend name; a coordinate \<^verbatim>\<open>None\<close> of the script is \<open>None\<close>.
\<close>

record scatter =
  xs_of :: "rat option list"
  ys_of :: "rat option list"
  mode_of :: string
  color_of :: string
  name_of :: "string option"

datatype image = Img nat nat

record figure =
  layout_images :: "image list"
  traces :: "scatter list"

datatype rendered = Plotly_chart figure | Write string

text \<open>The image files the script can open, by name.\<close>

type_synonym files = "string \<rightharpoonup> image"

definition Image_open :: "files \<Rightarrow> string \<Rightarrow> error + image" where
  "Image_open fs path = (case fs path of None \<Rightarrow> Inl FileNotFoundError | Some img \<Rightarrow> Inr img)"

text \<open>The \<^verbatim>\<open>try: ... except: pass\<close> around the background of the two field charts.\<close>

definition background :: "files \<Rightarrow> string \<Rightarrow> image list" where
  "background fs path = (case Image_open fs path of Inl _ \<Rightarrow> [] | Inr img \<Rightarrow> [img])"

text \<open>Subtraction on cells: a missing operand gives a missing result.\<close>

definition fsub :: "rat option \<Rightarrow> rat option \<Rightarrow> rat option" where
  "fsub a b = (case a of None \<Rightarrow> None | Some x \<Rightarrow> (case b of None \<Rightarrow> None | Some y \<Rightarrow> Some (x - y)))"

subsection \<open>Wagon wheel\<close>

definition wagon :: "delivery list \<Rightarrow> int list \<Rightarrow> delivery list" where
  "wagon f runs_shown =
     filter (\<lambda>r. Runs r \<in> set runs_shown \<and> Runs r > 0 \<and> notna (FieldX r) \<and> notna (FieldY r)) f"

definition center_x :: rat where
  "center_x = 175"

definition center_y :: rat where
  "center_y = 175"

definition run_colors :: "(int \<times> string) list" where
  "run_colors =
     [(1, ''#00FFFF''), (2, ''#0057FF''), (3, ''#FF00FF''),
      (4, ''#00C800''), (5, ''#FFA500''), (6, ''#FF0000'')]"

text \<open>The body of the loop over the rows of \<^verbatim>\<open>wagon\<close>: one line from the origin per row.\<close>

definition shot_trace :: "delivery \<Rightarrow> scatter" where
  "shot_trace row =
     (let x = fsub (FieldX row) (Some center_x);
          y = fsub (Some center_y) (FieldY row);
          run_val = Runs row;
          color = (case map_of run_colors run_val of None \<Rightarrow> ''grey'' | Some c \<Rightarrow> c)
      in \<lparr>xs_of = [Some 0, x], ys_of = [Some 0, y], mode_of = ''lines'',
          color_of = color, name_of = None\<rparr>)"

text \<open>
  The legend entries, one per colour. \<^verbatim>\<open>f"{r} Run"\<close> is written out for the one-digit
  keys, which are all that \<^verbatim>\<open>run_colors\<close> holds.
\<close>

definition legend_trace :: "int \<times> string \<Rightarrow> scatter" where
  "legend_trace rc =
     \<lparr>xs_of = [None], ys_of = [None], mode_of = ''lines'', color_of = snd rc,
      name_of = Some (char_of (48 + nat (fst rc)) # '' Run'')\<rparr>"

definition wagon_wheel :: "files \<Rightarrow> delivery list \<Rightarrow> int list \<Rightarrow> rendered" where
  "wagon_wheel fs f runs_shown =
     (let w = wagon f runs_shown
      in if length w > 0
         then Plotly_chart
                \<lparr>layout_images = background fs ''wagon_background.png'',
                 traces = map shot_trace w @ map legend_trace run_colors\<rparr>
         else Write ''No scoring shots available.'')"

subsection \<open>Catch map\<close>

definition caught :: "delivery list \<Rightarrow> delivery list" where
  "caught f =
     filter (\<lambda>r. Wicket r = Some ''Caught'' \<and> notna (FieldX r) \<and> notna (FieldY r)) f"

definition x_vals :: "delivery list \<Rightarrow> rat option list" where
  "x_vals c = map (\<lambda>r. fsub (FieldX r) (Some 175)) c"

definition y_vals :: "delivery list \<Rightarrow> rat option list" where
  "y_vals c = map (\<lambda>r. fsub (Some 175) (FieldY r)) c"

definition catch_map :: "files \<Rightarrow> delivery list \<Rightarrow> rendered" where
  "catch_map fs f =
     (let c = caught f
      in if length c > 0
         then Plotly_chart
                \<lparr>layout_images = background fs ''wagon_background.png'',
                 traces = [\<lparr>xs_of = x_vals c, ys_of = y_vals c, mode_of = ''markers'',
                            color_of = ''black'', name_of = None\<rparr>]\<rparr>
         else Write ''No caught dismissals.'')"

text \<open>
  The centring in the words of the specification, on a pair of field coordinates
  that are both present.
\<close>

definition centering :: "rat \<times> rat \<Rightarrow> rat \<times> rat" where
  "centering p = (fst p - 175, 175 - snd p)"

definition field_position :: "delivery \<Rightarrow> (rat \<times> rat) option" where
  "field_position r =
     (case FieldX r of None \<Rightarrow> None
      | Some x \<Rightarrow> (case FieldY r of None \<Rightarrow> None | Some y \<Rightarrow> Some (x, y)))"

subsection \<open>Beehive\<close>

definition beehive_data :: "delivery list \<Rightarrow> delivery list" where
  "beehive_data f =
     filter (\<lambda>r. notna (Analyst_Arrival_Line r) \<and> notna (Analyst_Arrival_Height r)) f"

text \<open>The three row selections that the traces of the beehive are read from.\<close>

definition four_runs :: "delivery list \<Rightarrow> delivery list" where
  "four_runs bd = filter (\<lambda>r. Runs r = 4) bd"

definition six_runs :: "delivery list \<Rightarrow> delivery list" where
  "six_runs bd = filter (\<lambda>r. Runs r = 6) bd"

definition dismissal_rows :: "delivery list \<Rightarrow> delivery list" where
  "dismissal_rows bd = filter (\<lambda>r. notna (Wicket r)) bd"

definition impact_trace :: "delivery list \<Rightarrow> string \<Rightarrow> string \<Rightarrow> scatter" where
  "impact_trace rows color name =
     \<lparr>xs_of = map Analyst_Arrival_Line rows, ys_of = map Analyst_Arrival_Height rows,
      mode_of = ''markers'', color_of = color, name_of = Some name\<rparr>"

text \<open>
  The background of the beehive is opened outside any \<^verbatim>\<open>try\<close>: without the file
  the section stops before a trace is added.
\<close>

definition beehive :: "files \<Rightarrow> delivery list \<Rightarrow> error + rendered" where
  "beehive fs f =
     (let bd = beehive_data f
      in if length bd > 0
         then (case Image_open fs ''beehive_background.jpg'' of
                 Inl e \<Rightarrow> Inl e
               | Inr img \<Rightarrow>
                   Inr (Plotly_chart
                     \<lparr>layout_images = [img],
                      traces = [impact_trace (four_runs bd) ''green'' ''4 Runs'',
                                impact_trace (six_runs bd) ''red'' ''6 Runs'',
                                impact_trace (dismissal_rows bd) ''black'' ''Dismissal'']\<rparr>))
         else Inr (Write ''No delivery data available.''))"

section \<open>Sample inputs\<close>

text \<open>A row with every optional cell missing and no runs; the samples update it.\<close>

definition blank :: csv_row where
  "blank = \<lparr>Batting_Team = None, Batter = None, Bowler_Type = None, Runs = 0,
            Extra = None, Wicket = None, FieldX = None, FieldY = None,
            Analyst_Arrival_Line = None, Analyst_Arrival_Height = None\<rparr>"

text \<open>
  The three deliveries of the end-to-end scenario: 4 runs landing at (200, 150);
  6 runs and no wicket; no run, caught, landing at (100, 200). A cell that the
  scenario does not give for a delivery while it gives it for another one (the
  wicket of the first, the landing position of the second) is missing. The columns
  the scenario gives for no delivery are those of \<open>base\<close>.
\<close>

definition scenario_of :: "csv_row \<Rightarrow> csv_row list" where
  "scenario_of base =
     [base\<lparr>Runs := 4, Wicket := None, FieldX := Some 200, FieldY := Some 150\<rparr>,
      base\<lparr>Runs := 6, Wicket := None, FieldX := None, FieldY := None\<rparr>,
      base\<lparr>Runs := 0, Wicket := Some ''Caught'', FieldX := Some 100, FieldY := Some 200\<rparr>]"

text \<open>The scenario for team \<open>t\<close>, batter \<open>b\<close> and bowler style \<open>k\<close>.\<close>

definition scenario :: "string \<Rightarrow> string \<Rightarrow> string \<Rightarrow> csv_row list" where
  "scenario t b k =
     scenario_of (blank\<lparr>Batting_Team := Some t, Batter := Some b, Bowler_Type := Some k\<rparr>)"

text \<open>Every option of every widget selected, for a table of one team and one batter.\<close>

definition all_open :: "string \<Rightarrow> string \<Rightarrow> selection" where
  "all_open t b =
     \<lparr>selected_teams = [t], selected_batters = [b],
      selected_bowling = [''Spin'', ''Pace''], selected_runs = [1, 2, 3, 4, 5, 6]\<rparr>"

definition no_selection :: selection where
  "no_selection = \<lparr>selected_teams = [], selected_batters = [], selected_bowling = [],
                   selected_runs = []\<rparr>"

text \<open>An over with a wide, a ball without extra, five wides and a no-ball.\<close>

definition over_sample :: "delivery list" where
  "over_sample = load_data
     [blank\<lparr>Runs := 1, Extra := Some ''Wide''\<rparr>,
      blank\<lparr>Runs := 2\<rparr>,
      blank\<lparr>Runs := 5, Extra := Some ''5 wides''\<rparr>,
      blank\<lparr>Runs := 1, Extra := Some ''No Ball''\<rparr>]"

text \<open>Six deliveries, one per kind of wicket cell the dismissal count tells apart.\<close>

definition wicket_sample :: "delivery list" where
  "wicket_sample = load_data
     [blank\<lparr>Wicket := Some ''Caught''\<rparr>,
      blank\<lparr>Wicket := Some ''Retired Hurt''\<rparr>,
      blank,
      blank\<lparr>Wicket := Some ''Absent''\<rparr>,
      blank\<lparr>Wicket := Some ''Bowled''\<rparr>,
      blank\<lparr>Wicket := Some ''Retired - Not Out''\<rparr>]"

text \<open>The points of a trace, as pairs of its coordinate lists.\<close>

definition points_of :: "scatter \<Rightarrow> (rat option \<times> rat option) list" where
  "points_of t = zip (xs_of t) (ys_of t)"

text \<open>
  Three deliveries with arrival coordinates (a four that is also a dismissal, a six,
  a dot ball) and a four without them.
\<close>

definition beehive_sample :: "delivery list" where
  "beehive_sample = load_data
     [blank\<lparr>Runs := 4, Wicket := Some ''Run Out'',
            Analyst_Arrival_Line := Some (1 / 10), Analyst_Arrival_Height := Some (1 / 2)\<rparr>,
      blank\<lparr>Runs := 6,
            Analyst_Arrival_Line := Some (- 1 / 5), Analyst_Arrival_Height := Some 1\<rparr>,
      blank\<lparr>Runs := 0,
            Analyst_Arrival_Line := Some 0, Analyst_Arrival_Height := Some (3 / 4)\<rparr>,
      blank\<lparr>Runs := 4\<rparr>]"

definition beehive_files :: files where
  "beehive_files = [''beehive_background.jpg'' \<mapsto> Img 800 600]"

text \<open>
  Six deliveries without a negative run count whose runs add up to \<open>2 ^ 64 + 1\<close>: two
  sixes and four counts that each fit an int64.
\<close>

definition overflow_sample :: "delivery list" where
  "overflow_sample = load_data
     [blank\<lparr>Runs := 6\<rparr>, blank\<lparr>Runs := 6\<rparr>,
      blank\<lparr>Runs := 2 ^ 62\<rparr>, blank\<lparr>Runs := 2 ^ 62\<rparr>, blank\<lparr>Runs := 2 ^ 62\<rparr>,
      blank\<lparr>Runs := 2 ^ 62 - 11\<rparr>]"

text \<open>An innings of 320 runs: a four, seven sixes and 274 singles.\<close>

definition innings_sample :: "delivery list" where
  "innings_sample = load_data
     (blank\<lparr>Runs := 4\<rparr> # replicate 7 (blank\<lparr>Runs := 6\<rparr>) @ replicate 274 (blank\<lparr>Runs := 1\<rparr>))"

section \<open>The filter engine\<close>

lemma isin_iff: "isin v vals = (\<exists>a \<in> set vals. v = Some a)"
  by (cases v) (auto simp: isin_def)

lemma filter_facet_ok:
  "filter (\<lambda>r. facet_ok chosen (g r)) xs =
     (if chosen \<noteq> [] then filter (\<lambda>r. isin (g r) chosen) xs else xs)"
  by (simp add: facet_ok_def isin_iff)

lemma filtered_eq_filter: "filtered data sel = filter (spec_retained sel) data"
proof -
  have "filter (spec_retained sel) data =
        filter (\<lambda>r. facet_ok (selected_bowling sel) (Bowling_Type r))
          (filter (\<lambda>r. facet_ok (selected_batters sel) (Batter r))
            (filter (\<lambda>r. facet_ok (selected_teams sel) (Batting_Team r)) data))"
    by (auto simp: spec_retained_def intro: filter_cong)
  also have "\<dots> = filtered data sel"
    unfolding filter_facet_ok filtered_def Let_def by (rule refl)
  finally show ?thesis by (rule sym)
qed

text \<open>
  C2. A row is in the filtered table exactly when it is a row of the input and, for
  each of the facets team, batter and bowling type whose selection is not empty, its
  value is a member of the selection. The filtered table is the input with rows left
  out (in the input's order), so its rows are rows of the input, and it is the whole
  input when the three selections are empty.
\<close>

theorem filtered_iff_facets:
  "filtered data sel = filter (spec_retained sel) data \<and>
   (r \<in> set (filtered data sel) \<longleftrightarrow> r \<in> set data \<and> spec_retained sel r) \<and>
   set (filtered data sel) \<subseteq> set data \<and>
   subseq (filtered data sel) data \<and>
   (selected_teams sel = [] \<and> selected_batters sel = [] \<and> selected_bowling sel = []
      \<longrightarrow> filtered data sel = data)"
proof -
  have eq: "filtered data sel = filter (spec_retained sel) data"
    by (rule filtered_eq_filter)
  have "selected_teams sel = [] \<and> selected_batters sel = [] \<and> selected_bowling sel = []
      \<longrightarrow> filtered data sel = data"
    by (simp add: filtered_def)
  with eq show ?thesis by auto
qed

theorem filtered_iff_facets_witness:
  "filtered (load_data (scenario ''A'' ''B'' ''RF'')) (all_open ''A'' ''B'')
     = load_data (scenario ''A'' ''B'' ''RF'') \<and>
   filtered (load_data (scenario ''A'' ''B'' ''RF''))
     ((all_open ''C'' ''B'')\<lparr>selected_batters := []\<rparr>) = [] \<and>
   filtered (load_data (scenario ''A'' ''B'' ''XX'')) no_selection
     = load_data (scenario ''A'' ''B'' ''XX'')"
  using filtered_iff_facets [of "load_data (scenario ''A'' ''B'' ''RF'')" "all_open ''A'' ''B''"]
    filtered_iff_facets [of "load_data (scenario ''A'' ''B'' ''RF'')"
      "(all_open ''C'' ''B'')\<lparr>selected_batters := []\<rparr>"]
    filtered_iff_facets [of "load_data (scenario ''A'' ''B'' ''XX'')" no_selection]
  by (simp add: spec_retained_def facet_ok_def scenario_def scenario_of_def blank_def all_open_def
       no_selection_def load_data_def add_bowling_type_def series_map_def
       bowling_type_mapping_def)

section \<open>The metrics calculator\<close>

subsection \<open>Balls faced\<close>

lemma match_here_prefix:
  "match_here (\<lambda>a b. g a = g b) p s \<longleftrightarrow> prefix (map g p) (map g s)"
  by (induction "\<lambda>a b. g a = g b" p s rule: match_here.induct) simp_all

lemma re_search_sublist:
  "re_search (\<lambda>a b. g a = g b) p s \<longleftrightarrow> sublist (map g p) (map g s)"
proof (induction s)
  case Nil
  show ?case by (cases p) simp_all
next
  case (Cons c cs)
  then show ?case
    by (simp add: match_here_prefix sublist_Cons_right)
qed

lemmas char_eval = ascii_lower_def char_of_def bit_Suc_0_iff

lemma lower_Wide: "map ascii_lower ''Wide'' = ''wide''"
  by (simp add: char_eval)

lemma nan_not_wide: "\<not> sublist ''wide'' (map ascii_lower ''nan'')"
  by (simp add: char_eval sublist_code)

lemma str_contains_Wide: "str_contains ''Wide'' False (astype_str e) = denotes_wide e"
proof (cases e)
  case None
  then show ?thesis
    using nan_not_wide
    by (simp only: str_contains_def astype_str_def denotes_wide_def re_search_sublist
          lower_Wide option.case if_False)
next
  case (Some s)
  then show ?thesis
    by (simp only: str_contains_def astype_str_def denotes_wide_def re_search_sublist
          lower_Wide option.case if_False)
qed

lemma denotes_wide_Wide: "denotes_wide (Some ''Wide'')"
  by (simp add: denotes_wide_def char_eval sublist_code)

text \<open>
  C4. \<open>balls_faced\<close> is the number of rows whose extra does not hold \<^verbatim>\<open>wide\<close> in any
  case, a row without extra being counted. A row whose extra is \<^verbatim>\<open>Wide\<close>, wherever
  it stands in the table, adds nothing to \<open>balls_faced\<close> and adds its runs to
  \<open>total_runs\<close>.
\<close>

theorem balls_faced_excludes_wides:
  "balls_faced f = length (filter (\<lambda>r. \<not> denotes_wide (Extra r)) f) \<and>
   (Extra r = Some ''Wide'' \<longrightarrow>
      balls_faced (xs @ r # ys) = balls_faced (xs @ ys) \<and>
      total_runs (xs @ r # ys) = Runs r + total_runs (xs @ ys))"
proof -
  have "balls_faced f = length (filter (\<lambda>r. \<not> denotes_wide (Extra r)) f)"
    by (simp add: balls_faced_def str_contains_Wide)
  moreover have "balls_faced (xs @ r # ys) = balls_faced (xs @ ys)"
    if "Extra r = Some ''Wide''"
    using that denotes_wide_Wide by (simp add: balls_faced_def str_contains_Wide)
  moreover have "total_runs (xs @ r # ys) = Runs r + total_runs (xs @ ys)"
    by (simp add: total_runs_def)
  ultimately show ?thesis by blast
qed

theorem balls_faced_excludes_wides_witness:
  "balls_faced over_sample = 2 \<and> total_runs over_sample = 9 \<and>
   balls_faced (tl over_sample) = 2 \<and> total_runs (tl over_sample) = 8"
  using balls_faced_excludes_wides [of over_sample "hd over_sample" "[]" "tl over_sample"]
  by (simp add: over_sample_def load_data_def add_bowling_type_def blank_def
        denotes_wide_def char_eval sublist_code total_runs_def)

subsection \<open>Dismissals\<close>

lemma dismissal_pointwise:
  "(notna w \<and> \<not> isin w [''Retired Hurt'', ''Retired - Not Out'', ''Absent''])
     = counts_as_dismissal w"
  by (cases w) (simp_all add: notna_def isin_def counts_as_dismissal_def)

text \<open>
  C5. \<open>dismissals_count\<close> is the number of rows whose wicket is present and is none
  of \<^verbatim>\<open>Retired Hurt\<close>, \<^verbatim>\<open>Retired - Not Out\<close> and \<^verbatim>\<open>Absent\<close>.
\<close>

theorem dismissals_count_spec:
  "dismissals_count f = length (filter (\<lambda>r. counts_as_dismissal (Wicket r)) f)"
  by (simp add: dismissals_count_def dismissal_pointwise)

theorem dismissals_count_spec_witness:
  "dismissals_count wicket_sample = 2"
  using dismissals_count_spec [of wicket_sample]
  by (simp add: wicket_sample_def load_data_def add_bowling_type_def blank_def
        counts_as_dismissal_def)

subsection \<open>Guarded divisions\<close>

lemma batting_average_total:
  "batting_average f =
     (if dismissals_count f = 0 then Inr Infinite
      else Inr (Average (round_py (of_int (total_runs f) / of_nat (dismissals_count f)) 2)))"
  by (simp add: batting_average_def truediv_def)

lemma strike_rate_total:
  "strike_rate f =
     (if balls_faced f = 0 then Inr 0
      else Inr (round_py (of_int (total_runs f) / of_nat (balls_faced f) * 100) 2))"
  by (simp add: strike_rate_def truediv_def)

lemma boundary_percentage_total:
  "boundary_percentage f =
     (if total_runs f \<le> 0 then Inr 0
      else Inr (round_py (of_int (boundary_runs f) / of_int (total_runs f) * 100) 2))"
  by (auto simp add: boundary_percentage_def truediv_def)

text \<open>
  C3. For every table, the empty one included, the metrics are computed without a
  division error: the three quotients return a value, and so does the metric row.
  Without dismissals the average is the sentinel \<open>Infinite\<close>, which is no number;
  without balls faced the strike rate is 0; without runs the boundary percentage
  is 0.
\<close>

theorem metrics_never_raise:
  "\<exists>m. performance_metrics f = Inr m \<and>
        batting_average f = Inr (m_average m) \<and>
        strike_rate f = Inr (m_strike_rate m) \<and>
        boundary_percentage f = Inr (m_boundary m) \<and>
        (dismissals_count f = 0 \<longrightarrow> m_average m = Infinite) \<and>
        (balls_faced f = 0 \<longrightarrow> m_strike_rate m = 0) \<and>
        (total_runs f = 0 \<longrightarrow> m_boundary m = 0)"
  by (simp add: performance_metrics_def batting_average_total strike_rate_total
        boundary_percentage_total)

theorem metrics_never_raise_witness:
  "performance_metrics [] =
     Inr \<lparr>m_runs = 0, m_balls_faced = 0, m_dismissals = 0, m_average = Infinite,
          m_strike_rate = 0, m_boundary = 0\<rparr>"
  using metrics_never_raise [of "[]"]
  by (auto simp add: performance_metrics_def total_runs_def balls_faced_def dismissals_count_def)

subsection \<open>Boundary percentage\<close>

lemma round_half_even_between:
  assumes "of_int a \<le> q" "q \<le> of_int b"
  shows "a \<le> round_half_even q \<and> round_half_even q \<le> b"
proof -
  have lo: "a \<le> \<lfloor>q\<rfloor>" using assms(1) by (simp add: le_floor_iff)
  have hi: "\<lfloor>q\<rfloor> \<le> b" using assms(2) by (simp add: floor_le_iff)
  show ?thesis
  proof (cases "\<lfloor>q\<rfloor> = b")
    case True
    then have "q = of_int b" using assms(2) of_int_floor_le [of q] by simp
    then show ?thesis using lo by (simp add: round_half_even_def)
  next
    case False
    with hi have "\<lfloor>q\<rfloor> + 1 \<le> b" by simp
    with lo show ?thesis by (auto simp add: round_half_even_def Let_def)
  qed
qed

lemma boundary_runs_bounds:
  assumes "\<forall>r \<in> set f. 0 \<le> Runs r"
  shows "0 \<le> boundary_runs f \<and> boundary_runs f \<le> total_runs f"
  using assms by (induction f) (auto simp add: boundary_runs_def total_runs_def)

text \<open>
  Rounding to a double: \<open>exponent\<close> brackets its argument between two powers of 2,
  \<open>to_double\<close> stays within that bracket, keeps the order of non-negative numbers
  and keeps every positive integer of at most 53 bits.
\<close>

lemma exponent_bounds:
  assumes "0 < q"
  shows "2 powi (exponent q) \<le> q \<and> q < 2 powi (exponent q + 1)"
proof (cases "1 \<le> q")
  case True
  let ?n = "\<lfloor>q\<rfloor>"
  have n: "0 < ?n" using True by simp
  from bitlen_bounds [OF n]
  have b: "2 ^ nat (bitlen ?n - 1) \<le> ?n" "?n < 2 ^ nat (bitlen ?n)" by simp_all
  have bl: "1 \<le> bitlen ?n" using n bitlen_eq_zero_iff [of ?n] bitlen_nonneg [of ?n] by linarith
  have lo: "(2::rat) powi (bitlen ?n - 1) \<le> q"
  proof -
    have "(2::rat) powi (bitlen ?n - 1) = of_int (2 ^ nat (bitlen ?n - 1))"
      using bl by (simp add: power_int_nonneg_exp)
    also have "\<dots> \<le> of_int ?n" using b(1) by (simp only: of_int_le_iff)
    also have "\<dots> \<le> q" by simp
    finally show ?thesis .
  qed
  have hi: "q < (2::rat) powi (bitlen ?n)"
  proof -
    have "?n + 1 \<le> 2 ^ nat (bitlen ?n)" using b(2) by simp
    then have "(of_int (?n + 1) :: rat) \<le> of_int (2 ^ nat (bitlen ?n))"
      by (simp only: of_int_le_iff)
    moreover have "q < of_int (?n + 1)" by simp linarith
    moreover have "(2::rat) powi (bitlen ?n) = of_int (2 ^ nat (bitlen ?n))"
      using bl by (simp add: power_int_nonneg_exp)
    ultimately show ?thesis by simp
  qed
  from lo hi True show ?thesis by (simp add: exponent_def)
next
  case False
  let ?k = "\<lceil>1 / q\<rceil>"
  let ?m = "?k - 1"
  let ?b = "bitlen ?m"
  have q1: "q < 1" using False by simp
  have inv: "1 < 1 / q" using assms q1 by simp
  have k2: "2 \<le> ?k" using inv by (simp add: le_ceiling_iff) 
  have m: "0 < ?m" using k2 by simp
  from bitlen_bounds [OF m]
  have b: "2 ^ nat (?b - 1) \<le> ?m" "?m < 2 ^ nat ?b" by simp_all
  have bl: "1 \<le> ?b" using m bitlen_eq_zero_iff [of ?m] bitlen_nonneg [of ?m] by linarith
  have m_lt: "of_int ?m < 1 / q" using ceiling_correct [of "1 / q"] by simp
  have k_ge: "1 / q \<le> of_int ?k" by simp
  have lo: "(2::rat) powi (- ?b) \<le> q"
  proof -
    have "?k \<le> 2 ^ nat ?b" using b(2) by simp
    then have "(of_int ?k :: rat) \<le> of_int (2 ^ nat ?b)" by (simp only: of_int_le_iff)
    with k_ge have "1 / q \<le> of_int (2 ^ nat ?b)" by (rule order_trans)
    then have "1 / q \<le> 2 ^ nat ?b" by simp
    then have "1 / 2 ^ nat ?b \<le> q" using assms by (simp add: field_simps)
    moreover have "(2::rat) powi (- ?b) = 1 / 2 ^ nat ?b"
      using bl by (simp add: power_int_minus_divide power_int_nonneg_exp)
    ultimately show ?thesis by simp
  qed
  have hi: "q < (2::rat) powi (- ?b + 1)"
  proof -
    have "(of_int (2 ^ nat (?b - 1)) :: rat) \<le> of_int ?m" using b(1) by (simp only: of_int_le_iff)
    from this m_lt have "of_int (2 ^ nat (?b - 1)) < 1 / q" by (rule le_less_trans)
    then have "2 ^ nat (?b - 1) < 1 / q" by simp
    then have "q < 1 / 2 ^ nat (?b - 1)" using assms by (simp add: field_simps)
    moreover have "(2::rat) powi (- ?b + 1) = 1 / 2 ^ nat (?b - 1)"
    proof -
      have "- ?b + 1 = - (?b - 1)" by simp
      then show ?thesis using bl by (simp only: power_int_minus_divide) (simp add: power_int_nonneg_exp)
    qed
    ultimately show ?thesis by simp
  qed
  from lo hi False show ?thesis by (simp add: exponent_def)
qed

lemma round_half_even_of_int [simp]: "round_half_even (of_int k) = k"
  by (simp add: round_half_even_def)

lemma round_half_even_bounds:
  "\<lfloor>q\<rfloor> \<le> round_half_even q \<and> round_half_even q \<le> \<lfloor>q\<rfloor> + 1"
  by (simp add: round_half_even_def Let_def)

lemma round_half_even_mono:
  assumes "x \<le> y"
  shows "round_half_even x \<le> round_half_even y"
proof (cases "\<lfloor>x\<rfloor> = \<lfloor>y\<rfloor>")
  case True
  then have "x - of_int \<lfloor>x\<rfloor> \<le> y - of_int \<lfloor>y\<rfloor>" using assms by simp
  with True show ?thesis by (auto simp add: round_half_even_def Let_def)
next
  case False
  have "\<lfloor>x\<rfloor> \<le> \<lfloor>y\<rfloor>" using assms by (rule floor_mono)
  with False have "\<lfloor>x\<rfloor> + 1 \<le> \<lfloor>y\<rfloor>" by simp
  with round_half_even_bounds [of x] round_half_even_bounds [of y] show ?thesis by linarith
qed

lemma exponent_mono:
  assumes "0 < x" "x \<le> y"
  shows "exponent x \<le> exponent y"
proof -
  have y: "0 < y" using assms by simp
  from exponent_bounds [OF assms(1)] exponent_bounds [OF y] assms(2)
  have "(2::rat) powi (exponent x) < 2 powi (exponent y + 1)" by linarith
  then have "exponent x < exponent y + 1"
    by (rule_tac ccontr) (simp add: not_less power_int_increasing [of _ _ "2::rat"] leD)
  then show ?thesis by simp
qed

text \<open>On positive numbers.\<close>

lemma to_double_pos:
  assumes "0 < q"
  shows "to_double q = of_int (round_half_even (q / 2 powi (exponent q - 52))) * 2 powi (exponent q - 52)"
  using assms by (simp add: to_double_def Let_def)

lemma to_double_binade:
  assumes "0 < q"
  shows "2 powi (exponent q) \<le> to_double q \<and> to_double q \<le> 2 powi (exponent q + 1)"
proof -
  let ?e = "exponent q"
  let ?u = "(2::rat) powi (?e - 52)"
  have u: "0 < ?u" by simp
  have e1: "(2::rat) powi ?e = 2 ^ 52 * ?u"
    by (simp add: power_int_diff)
  have e2: "(2::rat) powi (?e + 1) = 2 ^ 53 * ?u"
    by (simp add: power_int_diff power_int_add)
  from exponent_bounds [OF assms] have "2 ^ 52 * ?u \<le> q" "q \<le> 2 ^ 53 * ?u"
    unfolding e1 e2 by simp_all
  then have "of_int (2 ^ 52) \<le> q / ?u" "q / ?u \<le> of_int (2 ^ 53)"
    using u by (simp_all add: pos_le_divide_eq pos_divide_le_eq)
  from round_half_even_between [OF this]
  have "2 ^ 52 \<le> round_half_even (q / ?u)" "round_half_even (q / ?u) \<le> 2 ^ 53" by simp_all
  then have "(of_int (2 ^ 52) :: rat) \<le> of_int (round_half_even (q / ?u))"
    "(of_int (round_half_even (q / ?u)) :: rat) \<le> of_int (2 ^ 53)"
    by (simp_all only: of_int_le_iff)
  then have "2 ^ 52 * ?u \<le> of_int (round_half_even (q / ?u)) * ?u"
    "of_int (round_half_even (q / ?u)) * ?u \<le> 2 ^ 53 * ?u"
    using u by (simp_all add: mult_right_mono)
  then show ?thesis unfolding e1 e2 to_double_pos [OF assms] by simp
qed

lemma to_double_mono_pos:
  assumes "0 < x" "x \<le> y"
  shows "to_double x \<le> to_double y"
proof (cases "exponent x = exponent y")
  case True
  have y: "0 < y" using assms by simp
  let ?u = "(2::rat) powi (exponent y - 52)"
  have u: "0 < ?u" by simp
  have "x / ?u \<le> y / ?u" using assms(2) u by (simp add: divide_right_mono)
  then have "round_half_even (x / ?u) \<le> round_half_even (y / ?u)"
    by (rule round_half_even_mono)
  then have "(of_int (round_half_even (x / ?u)) :: rat) \<le> of_int (round_half_even (y / ?u))"
    by (simp only: of_int_le_iff)
  then have "of_int (round_half_even (x / ?u)) * ?u \<le> of_int (round_half_even (y / ?u)) * ?u"
    using u by (simp add: mult_right_mono)
  then show ?thesis
    unfolding to_double_pos [OF assms(1)] to_double_pos [OF y] True .
next
  case False
  have y: "0 < y" using assms by simp
  from False exponent_mono [OF assms] have "exponent x + 1 \<le> exponent y" by simp
  then have "(2::rat) powi (exponent x + 1) \<le> 2 powi (exponent y)"
    by (rule power_int_increasing) simp
  with to_double_binade [OF assms(1)] to_double_binade [OF y] show ?thesis by linarith
qed

lemma to_double_zero [simp]: "to_double 0 = 0"
  by (simp add: to_double_def)

lemma to_double_nonneg:
  assumes "0 \<le> q"
  shows "0 \<le> to_double q"
proof (cases "q = 0")
  case False
  with assms have q: "0 < q" by simp
  have "(0::rat) < 2 powi (exponent q)" by simp
  with to_double_binade [OF q] show ?thesis by linarith
qed simp

lemma to_double_mono:
  assumes "0 \<le> x" "x \<le> y"
  shows "to_double x \<le> to_double y"
proof (cases "x = 0")
  case True
  with assms to_double_nonneg [of y] show ?thesis by simp
next
  case False
  with assms have "0 < x" by simp
  then show ?thesis using assms(2) by (rule to_double_mono_pos)
qed

text \<open>Integers of at most 53 bits are doubles.\<close>

lemma to_double_of_int:
  assumes "0 < n" "n < 2 ^ 53"
  shows "to_double (of_int n) = of_int n"
proof -
  let ?q = "of_int n :: rat"
  have q: "0 < ?q" "1 \<le> ?q" using assms by simp_all
  have e: "exponent ?q = bitlen n - 1" using q by (simp add: exponent_def)
  have "bitlen n \<le> 53"
    using assms by (simp add: bitlen_le_iff_power)
  with e have "0 \<le> 52 - exponent ?q" by simp
  define d where "d = nat (52 - exponent ?q)"
  have d: "exponent ?q - 52 = - int d"
    using \<open>0 \<le> 52 - exponent ?q\<close> by (simp add: d_def)
  have u: "(2::rat) powi (exponent ?q - 52) = 1 / 2 ^ d"
    unfolding d by (simp add: power_int_minus_divide)
  have "?q / (1 / 2 ^ d) = of_int (n * 2 ^ d)" by simp
  then have "round_half_even (?q / (1 / 2 ^ d)) = n * 2 ^ d"
    by (simp only: round_half_even_of_int)
  then show ?thesis
    unfolding to_double_pos [OF q(1)] u by simp
qed

text \<open>
  Each int64 addition wraps, so the int64 sum is the wrapped sum of the integers,
  and it is the sum itself when the run counts are not negative and add up to less
  than \<open>2 ^ 63\<close>.
\<close>

lemma int64_add_left: "int64 (int64 a + x) = int64 (a + x)"
proof -
  have "int64 a + x + 2 ^ 63 = (a + 2 ^ 63) mod 2 ^ 64 + x"
    by (simp add: int64_def)
  then have "(int64 a + x + 2 ^ 63) mod 2 ^ 64 = ((a + 2 ^ 63) mod 2 ^ 64 + x) mod 2 ^ 64"
    by (rule arg_cong)
  also have "\<dots> = (a + 2 ^ 63 + x) mod 2 ^ 64" by (rule mod_add_left_eq)
  also have "a + 2 ^ 63 + x = a + x + 2 ^ 63" by arith
  finally show ?thesis unfolding int64_def by (rule arg_cong)
qed

lemma foldl_int64: "foldl (\<lambda>acc x. int64 (acc + x)) (int64 a) xs = int64 (a + sum_list xs)"
proof (induction xs arbitrary: a)
  case Nil
  show ?case by simp
next
  case (Cons x xs)
  have "foldl (\<lambda>acc x. int64 (acc + x)) (int64 a) (x # xs)
          = foldl (\<lambda>acc x. int64 (acc + x)) (int64 (a + x)) xs"
    by (simp add: int64_add_left)
  also have "\<dots> = int64 (a + x + sum_list xs)" by (rule Cons.IH)
  finally show ?case by (simp add: add.assoc)
qed

lemma int64_0: "int64 0 = 0"
  by (simp add: int64_def)

lemma sum_int64_wraps: "sum_int64 xs = int64 (sum_list xs)"
  using foldl_int64 [of 0 xs] by (simp add: sum_int64_def int64_0)

lemma int64_in_range:
  assumes "- (2 ^ 63) \<le> n" "n < 2 ^ 63"
  shows "int64 n = n"
  using assms by (simp add: int64_def)

lemma total_runs_int64_exact:
  assumes "\<forall>r \<in> set f. 0 \<le> Runs r" and "sum_list (map Runs f) < 2 ^ 63"
  shows "total_runs_int64 f = total_runs f \<and> boundary_runs_int64 f = boundary_runs f"
proof -
  from boundary_runs_bounds [OF assms(1)]
  have b: "0 \<le> boundary_runs f" "boundary_runs f \<le> total_runs f" by simp_all
  have t: "total_runs f < 2 ^ 63" using assms(2) by (simp add: total_runs_def)
  have "int64 (total_runs f) = total_runs f"
    using b t by (intro int64_in_range) simp_all
  moreover have "int64 (boundary_runs f) = boundary_runs f"
    using b t by (intro int64_in_range) simp_all
  ultimately show ?thesis
    by (simp add: total_runs_int64_def boundary_runs_int64_def sum_int64_wraps
          total_runs_def boundary_runs_def)
qed

lemma to_double_unit_interval:
  assumes "0 \<le> q" "q \<le> of_int n" "0 < n" "n < 2 ^ 53"
  shows "0 \<le> to_double q \<and> to_double q \<le> of_int n"
  using to_double_nonneg [OF assms(1)] to_double_mono [OF assms(1,2)]
    to_double_of_int [OF assms(3,4)] by simp

lemma np_round_2_between:
  assumes "0 \<le> p" "p \<le> 100"
  shows "0 \<le> np_round p 2 \<and> np_round p 2 \<le> 100"
proof -
  let ?y = "to_double (p * 10 ^ 2)"
  have "0 \<le> p * 10 ^ 2" "p * 10 ^ 2 \<le> of_int 10000" using assms by simp_all
  from to_double_unit_interval [OF this]
  have y: "of_int 0 \<le> ?y" "?y \<le> of_int 10000" by simp_all
  from round_half_even_between [OF y]
  have "0 \<le> round_half_even ?y" "round_half_even ?y \<le> 10000" by simp_all
  then have "(0::rat) \<le> of_int (round_half_even ?y)" "(of_int (round_half_even ?y) :: rat) \<le> 10000"
    by simp_all
  then have "0 \<le> (of_int (round_half_even ?y) :: rat) / 10 ^ 2"
    "(of_int (round_half_even ?y) :: rat) / 10 ^ 2 \<le> of_int 100"
    by simp_all
  from to_double_unit_interval [OF this] show ?thesis
    by (simp add: np_round_def)
qed

text \<open>
  C6, as amended. When no delivery has a negative run count, the runs add up to less
  than \<open>2 ^ 63\<close> (so that the int64 sum does not wrap) and the total of runs is
  positive, the boundary percentage (the int64 sum of the runs of the deliveries
  with 4 or 6 runs, divided by the int64 total, times 100, rounded to two decimals,
  in double precision) is a number between 0 and 100, both included.
\<close>

theorem boundary_percentage_float64_range:
  assumes "\<forall>r \<in> set f. 0 \<le> Runs r"
    and "sum_list (map Runs f) < 2 ^ 63"
    and "0 < total_runs_int64 f"
  shows "\<exists>p. boundary_percentage_float64 f = Inr p \<and> 0 \<le> p \<and> p \<le> 100"
proof -
  from total_runs_int64_exact [OF assms(1,2)]
  have eq: "total_runs_int64 f = total_runs f" "boundary_runs_int64 f = boundary_runs f"
    by simp_all
  from boundary_runs_bounds [OF assms(1)]
  have b: "0 \<le> boundary_runs f" "boundary_runs f \<le> total_runs f" by simp_all
  have t: "1 \<le> total_runs f" using assms(3) eq by simp
  let ?b = "to_double (of_int (boundary_runs f))"
  let ?t = "to_double (of_int (total_runs f))"
  have fb: "0 \<le> ?b" using b by (intro to_double_nonneg) simp
  have bt: "?b \<le> ?t" using b by (intro to_double_mono) simp_all
  have "to_double (of_int 1) \<le> ?t" using t by (intro to_double_mono) simp_all
  then have t1: "1 \<le> ?t" using to_double_of_int [of 1] by simp
  have "0 \<le> ?b / ?t" "?b / ?t \<le> of_int 1"
    using fb bt t1 by (simp_all add: divide_le_eq)
  from to_double_unit_interval [OF this]
  have q: "0 \<le> to_double (?b / ?t)" "to_double (?b / ?t) \<le> 1" by simp_all
  then have "0 \<le> to_double (?b / ?t) * 100" "to_double (?b / ?t) * 100 \<le> of_int 100"
    by simp_all
  from to_double_unit_interval [OF this]
  have "0 \<le> to_double (to_double (?b / ?t) * 100)" "to_double (to_double (?b / ?t) * 100) \<le> 100"
    by simp_all
  then have "0 \<le> np_round (to_double (to_double (?b / ?t) * 100)) 2 \<and>
        np_round (to_double (to_double (?b / ?t) * 100)) 2 \<le> 100"
    by (rule np_round_2_between)
  moreover have "boundary_percentage_float64 f
      = Inr (np_round (to_double (to_double (?b / ?t) * 100)) 2)"
    using t eq by (simp add: boundary_percentage_float64_def truediv_float64_def)
  ultimately show ?thesis by simp
qed

lemma runs_load_data: "map Runs (load_data df) = map Runs df"
  by (simp add: load_data_def add_bowling_type_def comp_def)

lemma filter_runs_load_data:
  "map Runs (filter (\<lambda>r. Runs r \<in> set vs) (load_data df)) = filter (\<lambda>n. n \<in> set vs) (map Runs df)"
  by (induction df) (simp_all add: load_data_def add_bowling_type_def)

lemma machine_sums:
  "total_runs_int64 (load_data df) = int64 (sum_list (map Runs df))"
  "boundary_runs_int64 (load_data df) = int64 (sum_list (filter (\<lambda>n. n \<in> set [4, 6]) (map Runs df)))"
  by (simp_all only: total_runs_int64_def boundary_runs_int64_def sum_int64_wraps runs_load_data
        filter_runs_load_data)

lemma overflow_runs:
  "map Runs overflow_sample = [6, 6, 2 ^ 62, 2 ^ 62, 2 ^ 62, 2 ^ 62 - 11]"
  by (simp add: overflow_sample_def runs_load_data blank_def)

lemma overflow_sums:
  "total_runs_int64 overflow_sample = 1" "boundary_runs_int64 overflow_sample = 12"
  by (simp_all add: overflow_sample_def machine_sums blank_def int64_def)

lemma double_12_1: "to_double (to_double 12 / to_double 1) = 12"
  using to_double_of_int [of 12] to_double_of_int [of 1] by simp

lemma np_round_1200: "np_round (to_double 1200) 2 = 1200"
  by code_simp

text \<open>
  C6 as stated fails in the arithmetic of the program. No delivery of
  \<open>overflow_sample\<close> has a negative run count, the int64 total is 1 and so positive,
  and the boundary percentage is 1200.
\<close>

theorem boundary_percentage_overflow_counterexample:
  "map Runs overflow_sample = [6, 6, 2 ^ 62, 2 ^ 62, 2 ^ 62, 2 ^ 62 - 11] \<and>
   total_runs_int64 overflow_sample = 1 \<and>
   boundary_percentage_float64 overflow_sample = Inr 1200 \<and>
   \<not> (1200 :: rat) \<le> 100"
  by (simp add: overflow_runs overflow_sums boundary_percentage_float64_def truediv_float64_def
        double_12_1 np_round_1200)

text \<open>
  An innings where the double precision result and the exact one part: 46 boundary
  runs of 320 give the double nearest to 14.37, and 14.38 over the rationals.
\<close>

lemma innings_runs:
  "map Runs innings_sample = 4 # replicate 7 6 @ replicate 274 1"
  by (simp add: innings_sample_def runs_load_data blank_def)

lemma innings_sums:
  "total_runs_int64 innings_sample = 320" "boundary_runs_int64 innings_sample = 46"
  by (simp_all add: innings_sample_def machine_sums blank_def int64_def sum_list_replicate)

lemma double_46_320:
  "np_round (to_double (to_double (to_double 46 / to_double 320) * 100)) 2 = to_double (1437 / 100)"
  by code_simp

lemma double_1437: "to_double (1437 / 100) = 8089590830664253 / 562949953421312"
  by code_simp

lemma innings_percentage:
  "boundary_percentage_float64 innings_sample = Inr (8089590830664253 / 562949953421312)"
  using double_46_320 double_1437
  by (simp add: boundary_percentage_float64_def truediv_float64_def innings_sums)

lemma exact_46_320: "round_py (46 / 320 * 100) 2 = 719 / 50"
  by code_simp

lemma innings_exact: "boundary_percentage innings_sample = Inr (719 / 50)"
proof -
  have "total_runs innings_sample = 320" "boundary_runs innings_sample = 46"
    by (simp_all add: boundary_runs_def total_runs_def innings_sample_def load_data_def
          add_bowling_type_def blank_def sum_list_replicate)
  then show ?thesis
    using exact_46_320 by (simp add: boundary_percentage_total)
qed

theorem boundary_percentage_float64_range_witness:
  "list_all (\<lambda>n. 0 \<le> n) (map Runs innings_sample) \<and>
   sum_list (map Runs innings_sample) = 320 \<and>
   total_runs_int64 innings_sample = 320 \<and>
   boundary_percentage_float64 innings_sample = Inr (8089590830664253 / 562949953421312) \<and>
   (0 :: rat) \<le> 8089590830664253 / 562949953421312 \<and>
   (8089590830664253 / 562949953421312 :: rat) \<le> 100"
proof -
  have runs: "\<forall>r \<in> set innings_sample. 0 \<le> Runs r"
    by (auto simp add: innings_sample_def load_data_def add_bowling_type_def blank_def)
  have sum: "sum_list (map Runs innings_sample) = 320"
    by (simp add: innings_runs sum_list_replicate)
  have no_wrap: "sum_list (map Runs innings_sample) < 2 ^ 63"
    by (simp add: sum)
  have pos: "0 < total_runs_int64 innings_sample"
    by (simp add: innings_sums)
  from boundary_percentage_float64_range [OF runs no_wrap pos] innings_percentage
  have "(0 :: rat) \<le> 8089590830664253 / 562949953421312 \<and>
        (8089590830664253 / 562949953421312 :: rat) \<le> 100"
    by simp
  moreover have "list_all (\<lambda>n. 0 \<le> n) (map Runs innings_sample)"
    by (simp add: innings_runs list_all_iff)
  ultimately show ?thesis
    using sum innings_sums(1) innings_percentage by simp
qed

section \<open>The spatial mapper\<close>

subsection \<open>Centring of field positions\<close>

lemma notna_iff: "notna v \<longleftrightarrow> (\<exists>a. v = Some a)"
  by (cases v) (simp_all add: notna_def)

lemma shot_trace_centering:
  assumes "field_position r = Some p"
  shows "xs_of (shot_trace r) = [Some 0, Some (fst (centering p))] \<and>
         ys_of (shot_trace r) = [Some 0, Some (snd (centering p))]"
  using assms
  by (auto simp add: field_position_def shot_trace_def centering_def fsub_def center_x_def
        center_y_def Let_def split: option.splits)

lemma wagon_has_position:
  assumes "r \<in> set (wagon f runs_shown)"
  shows "\<exists>p. field_position r = Some p"
  using assms by (auto simp add: wagon_def notna_iff field_position_def)

lemma caught_has_position:
  assumes "r \<in> set (caught f)"
  shows "\<exists>p. field_position r = Some p"
  using assms by (auto simp add: caught_def notna_iff field_position_def)

lemma catch_point_centering:
  assumes "field_position r = Some p"
  shows "fsub (FieldX r) (Some 175) = Some (fst (centering p)) \<and>
         fsub (Some 175) (FieldY r) = Some (snd (centering p))"
  using assms
  by (auto simp add: field_position_def centering_def fsub_def split: option.splits)

text \<open>
  C7. Every row the wagon wheel draws has both field coordinates, and its line runs
  from the origin to the centring of them, \<open>(FieldX - 175, 175 - FieldY)\<close>; every
  row the catch map draws has both field coordinates, and its marker stands at the
  centring of them. The centring of \<open>(175, 175)\<close> is the origin.
\<close>

theorem centering_in_both_maps:
  "(\<forall>r \<in> set (wagon f runs_shown).
      \<exists>p. field_position r = Some p \<and>
          xs_of (shot_trace r) = [Some 0, Some (fst (centering p))] \<and>
          ys_of (shot_trace r) = [Some 0, Some (snd (centering p))]) \<and>
   (\<exists>ps. map field_position (caught f) = map Some ps \<and>
         x_vals (caught f) = map (\<lambda>p. Some (fst (centering p))) ps \<and>
         y_vals (caught f) = map (\<lambda>p. Some (snd (centering p))) ps) \<and>
   centering (175, 175) = (0, 0)"
proof -
  have w: "\<forall>r \<in> set (wagon f runs_shown).
      \<exists>p. field_position r = Some p \<and>
          xs_of (shot_trace r) = [Some 0, Some (fst (centering p))] \<and>
          ys_of (shot_trace r) = [Some 0, Some (snd (centering p))]"
    using wagon_has_position shot_trace_centering by blast
  have "\<forall>r \<in> set c. \<exists>p. field_position r = Some p \<Longrightarrow>
        \<exists>ps. map field_position c = map Some ps \<and>
         x_vals c = map (\<lambda>p. Some (fst (centering p))) ps \<and>
         y_vals c = map (\<lambda>p. Some (snd (centering p))) ps" for c
  proof (induction c)
    case Nil
    then show ?case by (simp add: x_vals_def y_vals_def)
  next
    case (Cons r c)
    then obtain ps where ps: "map field_position c = map Some ps"
        "x_vals c = map (\<lambda>p. Some (fst (centering p))) ps"
        "y_vals c = map (\<lambda>p. Some (snd (centering p))) ps"
      by auto
    from Cons.prems obtain p where p: "field_position r = Some p" by auto
    from catch_point_centering [OF p] ps p
    have "map field_position (r # c) = map Some (p # ps) \<and>
         x_vals (r # c) = map (\<lambda>p. Some (fst (centering p))) (p # ps) \<and>
         y_vals (r # c) = map (\<lambda>p. Some (snd (centering p))) (p # ps)"
      by (simp add: x_vals_def y_vals_def)
    then show ?case by blast
  qed
  with caught_has_position
  have c: "\<exists>ps. map field_position (caught f) = map Some ps \<and>
         x_vals (caught f) = map (\<lambda>p. Some (fst (centering p))) ps \<and>
         y_vals (caught f) = map (\<lambda>p. Some (snd (centering p))) ps"
    by blast
  have "centering (175, 175) = (0, 0)" by (simp add: centering_def)
  with w c show ?thesis by blast
qed


theorem centering_in_both_maps_witness:
  "map xs_of (map shot_trace (wagon (load_data (scenario ''A'' ''B'' ''RF'')) [1, 2, 3, 4, 5, 6]))
     = [[Some 0, Some 25]] \<and>
   map ys_of (map shot_trace (wagon (load_data (scenario ''A'' ''B'' ''RF'')) [1, 2, 3, 4, 5, 6]))
     = [[Some 0, Some 25]] \<and>
   x_vals (caught (load_data (scenario ''A'' ''B'' ''RF''))) = [Some (- 75)] \<and>
   y_vals (caught (load_data (scenario ''A'' ''B'' ''RF''))) = [Some (- 25)]"
  using centering_in_both_maps [of "load_data (scenario ''A'' ''B'' ''RF'')" "[1, 2, 3, 4, 5, 6]"]
  by (simp add: scenario_def scenario_of_def load_data_def add_bowling_type_def blank_def wagon_def caught_def
        notna_def shot_trace_def fsub_def center_x_def center_y_def x_vals_def y_vals_def)

subsection \<open>Series of the beehive\<close>

lemma in_impact_trace:
  assumes "r \<in> set rows"
  shows "(Analyst_Arrival_Line r, Analyst_Arrival_Height r)
           \<in> set (points_of (impact_trace rows color name))"
proof -
  have "points_of (impact_trace rows color name)
          = map (\<lambda>r. (Analyst_Arrival_Line r, Analyst_Arrival_Height r)) rows"
    by (simp add: points_of_def impact_trace_def zip_map_map) (simp add: zip_same_conv_map)
  with assms show ?thesis by auto
qed

lemma beehive_with_background:
  assumes "fs ''beehive_background.jpg'' = Some img" and "beehive_data f \<noteq> []"
  shows "beehive fs f = Inr (Plotly_chart
           \<lparr>layout_images = [img],
            traces = [impact_trace (four_runs (beehive_data f)) ''green'' ''4 Runs'',
                      impact_trace (six_runs (beehive_data f)) ''red'' ''6 Runs'',
                      impact_trace (dismissal_rows (beehive_data f)) ''black'' ''Dismissal'']\<rparr>)"
  using assms by (simp add: beehive_def Image_open_def Let_def)

lemma beehive_without_background:
  assumes "fs ''beehive_background.jpg'' = None" and "beehive_data f \<noteq> []"
  shows "beehive fs f = Inl FileNotFoundError"
  using assms by (simp add: beehive_def Image_open_def Let_def)

text \<open>
  When the background image opens: a row of the filtered table with both arrival
  coordinates is in the rows of the beehive, and it is in each of the three series
  whose condition it meets, with its point among the points of that series: the
  fours, the sixes, the rows with a wicket. The conditions are tested one by one, so
  a row that meets several is in several series.
\<close>

lemma beehive_series_with_background:
  assumes "r \<in> set f"
    and "Analyst_Arrival_Line r = Some l" and "Analyst_Arrival_Height r = Some h"
  shows "(Runs r = 4 \<longrightarrow>
            r \<in> set (four_runs (beehive_data f)) \<and>
            (Some l, Some h) \<in> set (points_of
               (impact_trace (four_runs (beehive_data f)) ''green'' ''4 Runs''))) \<and>
         (Runs r = 6 \<longrightarrow>
            r \<in> set (six_runs (beehive_data f)) \<and>
            (Some l, Some h) \<in> set (points_of
               (impact_trace (six_runs (beehive_data f)) ''red'' ''6 Runs''))) \<and>
         (Wicket r \<noteq> None \<longrightarrow>
            r \<in> set (dismissal_rows (beehive_data f)) \<and>
            (Some l, Some h) \<in> set (points_of
               (impact_trace (dismissal_rows (beehive_data f)) ''black'' ''Dismissal''))) \<and>
         (\<forall>img. fs ''beehive_background.jpg'' = Some img \<longrightarrow>
            beehive fs f = Inr (Plotly_chart
              \<lparr>layout_images = [img],
               traces = [impact_trace (four_runs (beehive_data f)) ''green'' ''4 Runs'',
                         impact_trace (six_runs (beehive_data f)) ''red'' ''6 Runs'',
                         impact_trace (dismissal_rows (beehive_data f)) ''black''
                           ''Dismissal'']\<rparr>))"
proof -
  have bd: "r \<in> set (beehive_data f)"
    using assms by (simp add: beehive_data_def notna_def)
  then have ne: "beehive_data f \<noteq> []" by auto
  have p: "(Some l, Some h) \<in> set (points_of (impact_trace rows color name))"
    if "r \<in> set rows" for rows color name
    using in_impact_trace [OF that, of color name] assms(2,3) by simp
  have "r \<in> set (four_runs (beehive_data f))" if "Runs r = 4"
    using that bd by (simp add: four_runs_def)
  moreover have "r \<in> set (six_runs (beehive_data f))" if "Runs r = 6"
    using that bd by (simp add: six_runs_def)
  moreover have "r \<in> set (dismissal_rows (beehive_data f))" if "Wicket r \<noteq> None"
    using that bd by (auto simp add: dismissal_rows_def notna_iff)
  ultimately show ?thesis
    using p beehive_with_background [OF _ ne, of fs] by blast
qed


lemma beehive_sample_chart:
  "beehive beehive_files beehive_sample =
     Inr (Plotly_chart
       \<lparr>layout_images = [Img 800 600],
        traces =
          [\<lparr>xs_of = [Some (1 / 10)], ys_of = [Some (1 / 2)], mode_of = ''markers'',
            color_of = ''green'', name_of = Some ''4 Runs''\<rparr>,
           \<lparr>xs_of = [Some (- 1 / 5)], ys_of = [Some 1], mode_of = ''markers'',
            color_of = ''red'', name_of = Some ''6 Runs''\<rparr>,
           \<lparr>xs_of = [Some (1 / 10)], ys_of = [Some (1 / 2)], mode_of = ''markers'',
            color_of = ''black'', name_of = Some ''Dismissal''\<rparr>]\<rparr>)"
  using beehive_series_with_background [of "hd beehive_sample" beehive_sample "1 / 10" "1 / 2" beehive_files]
  by (simp add: beehive_sample_def beehive_files_def load_data_def add_bowling_type_def blank_def
        beehive_data_def four_runs_def six_runs_def dismissal_rows_def impact_trace_def notna_def)

text \<open>
  C8 fails on the program when \<^verbatim>\<open>beehive_background.jpg\<close> cannot be opened. The first
  row of \<open>beehive_sample\<close> has both arrival coordinates, 4 runs and a wicket, and the
  claim places it in the series of the fours and in the series of the dismissals;
  the beehive section raises before any series is built. The catch map, which opens
  its background inside a \<^verbatim>\<open>try\<close>, draws its marker without the file.
\<close>

theorem beehive_missing_background_raises:
  "beehive Map.empty beehive_sample = Inl FileNotFoundError \<and>
   catch_map Map.empty (load_data (scenario ''A'' ''B'' ''RF'')) =
     Plotly_chart
       \<lparr>layout_images = [],
        traces = [\<lparr>xs_of = [Some (- 75)], ys_of = [Some (- 25)], mode_of = ''markers'',
                   color_of = ''black'', name_of = None\<rparr>]\<rparr>"
  by (simp add: beehive_def beehive_data_def beehive_sample_def Image_open_def notna_def
        catch_map_def caught_def background_def x_vals_def y_vals_def fsub_def
        scenario_def scenario_of_def load_data_def add_bowling_type_def blank_def)

section \<open>Rows that a facet or a widget leaves out\<close>

subsection \<open>Bowler styles outside the table\<close>

lemma in_load_data: "c \<in> set df \<Longrightarrow> add_bowling_type c \<in> set (load_data df)"
  by (simp add: load_data_def)

lemma add_bowling_type_cols:
  "Batting_Team (add_bowling_type c) = Batting_Team c"
  "Batter (add_bowling_type c) = Batter c"
  "Bowling_Type (add_bowling_type c) = series_map bowling_type_mapping (Bowler_Type c)"
  by (simp_all add: add_bowling_type_def)

text \<open>
  C9. A row whose bowler style is missing or is no key of \<open>bowling_type_mapping\<close>
  gets no bowling type. Whenever the bowling type selection is not empty, as with
  the default selection of both types, that row is not in the filtered table; it is
  in the filtered table exactly when it is a row of the input, the bowling type
  selection is empty and the team and batter facets keep it.
\<close>

theorem unmapped_style_excluded:
  assumes "Bowler_Type c = None \<or> (\<exists>k. Bowler_Type c = Some k \<and> k \<notin> dom bowling_type_mapping)"
  shows "Bowling_Type (add_bowling_type c) = None \<and>
         (selected_bowling sel \<noteq> [] \<longrightarrow>
            add_bowling_type c \<notin> set (filtered (load_data df) sel)) \<and>
         (add_bowling_type c \<in> set (filtered (load_data df) sel) \<longleftrightarrow>
            c \<in> set df \<and> selected_bowling sel = [] \<and>
            facet_ok (selected_teams sel) (Batting_Team c) \<and>
            facet_ok (selected_batters sel) (Batter c))"
proof -
  have none: "Bowling_Type (add_bowling_type c) = None"
    using assms by (auto simp add: add_bowling_type_cols series_map_def)
  have inj: "add_bowling_type c \<in> set (load_data df) \<longleftrightarrow> c \<in> set df"
  proof
    assume "add_bowling_type c \<in> set (load_data df)"
    then obtain c' where c': "c' \<in> set df" "add_bowling_type c' = add_bowling_type c"
      by (auto simp add: load_data_def)
    from c'(2) have "c' = c"
      by (cases c, cases c') (simp add: add_bowling_type_def)
    with c'(1) show "c \<in> set df" by simp
  qed (rule in_load_data)
  have mem: "add_bowling_type c \<in> set (filtered (load_data df) sel) \<longleftrightarrow>
        c \<in> set df \<and> spec_retained sel (add_bowling_type c)"
    by (simp add: filtered_eq_filter inj)
  have ret: "spec_retained sel (add_bowling_type c) \<longleftrightarrow>
        selected_bowling sel = [] \<and>
        facet_ok (selected_teams sel) (Batting_Team c) \<and>
        facet_ok (selected_batters sel) (Batter c)"
    using none by (auto simp add: spec_retained_def add_bowling_type_cols facet_ok_def)
  from none mem ret show ?thesis by blast
qed


theorem unmapped_style_excluded_witness:
  "Bowling_Type (add_bowling_type (hd (scenario ''A'' ''B'' ''XX''))) = None \<and>
   filtered (load_data (scenario ''A'' ''B'' ''XX'')) (all_open ''A'' ''B'') = [] \<and>
   filtered (load_data (scenario ''A'' ''B'' ''XX'')) ((all_open ''A'' ''B'')\<lparr>selected_bowling := []\<rparr>)
     = load_data (scenario ''A'' ''B'' ''XX'')"
  using unmapped_style_excluded [of "hd (scenario ''A'' ''B'' ''XX'')" "all_open ''A'' ''B''"
      "scenario ''A'' ''B'' ''XX''"]
  by (simp add: scenario_def scenario_of_def blank_def all_open_def load_data_def add_bowling_type_def
        series_map_def bowling_type_mapping_def filtered_def isin_def)

subsection \<open>Runs to display\<close>

text \<open>
  C10. With an empty runs-to-display selection the wagon wheel has no row, whatever
  the table, and the script writes its placeholder instead of a figure: membership
  of the runs in the selection is a conjunct of the mask with no test for an empty
  list. The selections of team, batter and bowling type, when empty, keep the whole
  table.
\<close>

theorem empty_runs_selection_empties_wagon:
  "wagon f [] = [] \<and>
   wagon_wheel fs f [] = Write ''No scoring shots available.'' \<and>
   wagon (filtered data (sel\<lparr>selected_runs := []\<rparr>)) (selected_runs (sel\<lparr>selected_runs := []\<rparr>)) = [] \<and>
   filtered data (sel\<lparr>selected_teams := [], selected_batters := [], selected_bowling := []\<rparr>) = data"
  by (simp add: wagon_def wagon_wheel_def filtered_def)

theorem empty_runs_selection_empties_wagon_witness:
  "wagon (load_data (scenario ''A'' ''B'' ''RF'')) [] = [] \<and>
   length (wagon (load_data (scenario ''A'' ''B'' ''RF'')) [4]) = 1 \<and>
   wagon_wheel Map.empty (load_data (scenario ''A'' ''B'' ''RF'')) []
     = Write ''No scoring shots available.''"
  using empty_runs_selection_empties_wagon [of "load_data (scenario ''A'' ''B'' ''RF'')" Map.empty]
  by (simp add: scenario_def scenario_of_def blank_def load_data_def add_bowling_type_def wagon_def notna_def)

section \<open>End-to-end scenario\<close>

lemma scenario_metrics:
  "total_runs (load_data (scenario_of base)) = 10"
  "dismissals_count (load_data (scenario_of base)) = 1"
  by (simp_all add: total_runs_def dismissals_count_def notna_def isin_def scenario_of_def
        load_data_def add_bowling_type_def)

lemma scenario_average: "batting_average (load_data (scenario_of base)) = Inr (Average 10)"
  by (simp add: batting_average_def scenario_metrics truediv_def round_py_def
        round_half_even_def)

lemma scenario_wagon:
  "map shot_trace (wagon (load_data (scenario_of base)) [1, 2, 3, 4, 5, 6])
     = [\<lparr>xs_of = [Some 0, Some 25], ys_of = [Some 0, Some 25], mode_of = ''lines'',
         color_of = ''#00C800'', name_of = None\<rparr>]"
  by (simp add: wagon_def notna_def scenario_of_def load_data_def add_bowling_type_def
        shot_trace_def fsub_def center_x_def center_y_def run_colors_def)

lemma scenario_caught:
  "x_vals (caught (load_data (scenario_of base))) = [Some (- 75)]"
  "y_vals (caught (load_data (scenario_of base))) = [Some (- 25)]"
  by (simp_all add: caught_def notna_def scenario_of_def load_data_def add_bowling_type_def
        x_vals_def y_vals_def fsub_def)

text \<open>
  C1, as amended. Take the three deliveries of the scenario, whatever their other
  columns, a selection whose filters keep all three, and all six run values
  selected. Then the total of runs is 10, there is 1 dismissal, the average is 10,
  the catch map has exactly one point, at \<open>(-75, -25)\<close>, and the wagon wheel has
  exactly one line, for the delivery of 4 runs, from the origin to \<open>(25, 25)\<close>. The
  delivery of 6 runs has no landing position and the wagon wheel leaves it out.
\<close>

theorem scenario_pipeline:
  assumes "filtered (load_data (scenario_of base)) sel = load_data (scenario_of base)"
    and "selected_runs sel = [1, 2, 3, 4, 5, 6]"
  shows "total_runs (filtered (load_data (scenario_of base)) sel) = 10 \<and>
         dismissals_count (filtered (load_data (scenario_of base)) sel) = 1 \<and>
         batting_average (filtered (load_data (scenario_of base)) sel) = Inr (Average 10) \<and>
         map shot_trace (wagon (filtered (load_data (scenario_of base)) sel) (selected_runs sel))
           = [\<lparr>xs_of = [Some 0, Some 25], ys_of = [Some 0, Some 25], mode_of = ''lines'',
               color_of = ''#00C800'', name_of = None\<rparr>] \<and>
         x_vals (caught (filtered (load_data (scenario_of base)) sel)) = [Some (- 75)] \<and>
         y_vals (caught (filtered (load_data (scenario_of base)) sel)) = [Some (- 25)]"
  unfolding assms
  using scenario_metrics scenario_average scenario_wagon scenario_caught by simp

theorem scenario_pipeline_witness:
  "filtered (load_data (scenario ''A'' ''B'' ''RF'')) (all_open ''A'' ''B'')
     = load_data (scenario ''A'' ''B'' ''RF'') \<and>
   selected_runs (all_open ''A'' ''B'') = [1, 2, 3, 4, 5, 6] \<and>
   total_runs (filtered (load_data (scenario ''A'' ''B'' ''RF'')) (all_open ''A'' ''B'')) = 10 \<and>
   dismissals_count (filtered (load_data (scenario ''A'' ''B'' ''RF'')) (all_open ''A'' ''B'')) = 1 \<and>
   batting_average (filtered (load_data (scenario ''A'' ''B'' ''RF'')) (all_open ''A'' ''B''))
     = Inr (Average 10) \<and>
   map shot_trace
     (wagon (filtered (load_data (scenario ''A'' ''B'' ''RF'')) (all_open ''A'' ''B''))
        (selected_runs (all_open ''A'' ''B'')))
     = [\<lparr>xs_of = [Some 0, Some 25], ys_of = [Some 0, Some 25], mode_of = ''lines'',
         color_of = ''#00C800'', name_of = None\<rparr>] \<and>
   x_vals (caught (filtered (load_data (scenario ''A'' ''B'' ''RF'')) (all_open ''A'' ''B'')))
     = [Some (- 75)] \<and>
   y_vals (caught (filtered (load_data (scenario ''A'' ''B'' ''RF'')) (all_open ''A'' ''B'')))
     = [Some (- 25)]"
proof -
  have open_filters:
    "filtered (load_data (scenario ''A'' ''B'' ''RF'')) (all_open ''A'' ''B'')
       = load_data (scenario ''A'' ''B'' ''RF'')"
    by (simp add: filtered_def all_open_def scenario_def scenario_of_def load_data_def
          add_bowling_type_def series_map_def bowling_type_mapping_def isin_def blank_def)
  have all_runs: "selected_runs (all_open ''A'' ''B'') = [1, 2, 3, 4, 5, 6]"
    by (simp add: all_open_def)
  note open_filters' = open_filters [unfolded scenario_def]
  show ?thesis
    unfolding scenario_def
    by (intro conjI open_filters' all_runs
          scenario_pipeline [OF open_filters' all_runs, THEN conjunct1]
          scenario_pipeline [OF open_filters' all_runs, THEN conjunct2, THEN conjunct1]
          scenario_pipeline [OF open_filters' all_runs, THEN conjunct2, THEN conjunct2,
            THEN conjunct1]
          scenario_pipeline [OF open_filters' all_runs, THEN conjunct2, THEN conjunct2,
            THEN conjunct2, THEN conjunct1]
          scenario_pipeline [OF open_filters' all_runs, THEN conjunct2, THEN conjunct2,
            THEN conjunct2, THEN conjunct2, THEN conjunct1]
          scenario_pipeline [OF open_filters' all_runs, THEN conjunct2, THEN conjunct2,
            THEN conjunct2, THEN conjunct2, THEN conjunct2])
qed

text \<open>
  C1 as stated, with two lines in the wagon wheel, fails on the scenario with every
  option of every widget selected: the wagon wheel has one row.
\<close>

theorem scenario_two_segments_counterexample:
  "\<not> (total_runs (filtered (load_data (scenario ''A'' ''B'' ''RF'')) (all_open ''A'' ''B'')) = 10 \<and>
      dismissals_count (filtered (load_data (scenario ''A'' ''B'' ''RF'')) (all_open ''A'' ''B'')) = 1 \<and>
      batting_average (filtered (load_data (scenario ''A'' ''B'' ''RF'')) (all_open ''A'' ''B''))
        = Inr (Average 10) \<and>
      length (map shot_trace
        (wagon (filtered (load_data (scenario ''A'' ''B'' ''RF'')) (all_open ''A'' ''B''))
           (selected_runs (all_open ''A'' ''B'')))) = 2 \<and>
      x_vals (caught (filtered (load_data (scenario ''A'' ''B'' ''RF'')) (all_open ''A'' ''B'')))
        = [Some (- 75)] \<and>
      y_vals (caught (filtered (load_data (scenario ''A'' ''B'' ''RF'')) (all_open ''A'' ''B'')))
        = [Some (- 25)])"
proof -
  have "length (wagon (filtered (load_data (scenario ''A'' ''B'' ''RF'')) (all_open ''A'' ''B''))
          (selected_runs (all_open ''A'' ''B''))) = 1"
    by (simp add: filtered_def all_open_def scenario_def scenario_of_def load_data_def
          add_bowling_type_def series_map_def bowling_type_mapping_def isin_def blank_def
          wagon_def notna_def)
  then show ?thesis by simp
qed

end
